theory Spec2Isabelle
  imports Main
begin

section \<open>Paths (pathlib, POSIX flavour)\<close>

text \<open>
  Strings are byte strings (UTF-8). The characters the source tests for (the slash, the dot,
  the letters of the suffix \<open>.csv\<close>) are ASCII, and no byte of a multi-byte UTF-8 sequence
  is ASCII, so splitting and comparing on bytes agrees with Python's code points here.

  A \<open>Path\<close> object is its root (empty, \<open>/\<close> or \<open>//\<close>) and its tail, the list of
  components. \<open>Path s\<close> parses a string the way \<open>pathlib.PurePosixPath\<close> does: empty
  components and \<open>.\<close> components are dropped, exactly two leading slashes are a root of
  their own.
\<close>

datatype path = PosixPath (root: string) (tail: "string list")

fun split_on :: "char \<Rightarrow> string \<Rightarrow> string list" where
  "split_on sep [] = [] # []"
| "split_on sep (c # cs) =
     (if c = sep then [] # split_on sep cs
      else (case split_on sep cs of
              [] \<Rightarrow> [c] # []
            | p # ps \<Rightarrow> (c # p) # ps))"

definition path_root :: "string \<Rightarrow> string" where
  "path_root s =
     (if take 2 s = ''//'' \<and> take 3 s \<noteq> ''///'' then ''//''
      else if take 1 s = ''/'' then ''/''
      else [])"

definition Path :: "string \<Rightarrow> path" where
  "Path s = PosixPath (path_root s)
              (filter (\<lambda>c. c \<noteq> [] \<and> c \<noteq> ''.'') (split_on CHR ''/'' s))"

text \<open>\<open>PurePath.name\<close>: the last component of the tail, the empty string without one.\<close>

definition name :: "path \<Rightarrow> string" where
  "name p = (if tail p = [] then [] else last (tail p))"

text \<open>
  \<open>PurePath.suffix\<close>, as pathlib defines it up to Python 3.13: with
  \<open>i = name.rfind('.')\<close>, the slice \<open>name[i:]\<close> when \<open>0 < i < len(name) - 1\<close>, the
  empty string otherwise.
\<close>

definition suffix :: "path \<Rightarrow> string" where
  "suffix p =
     (let nm = name p;
          ext = rev (takeWhile (\<lambda>c. c \<noteq> CHR ''.'') (rev nm))
      in if CHR ''.'' \<in> set nm \<and> length ext + 1 < length nm \<and> ext \<noteq> []
         then CHR ''.'' # ext else [])"

text \<open>
  \<open>str.lower\<close> on the ASCII letters; every other byte is left as it is. The source
  compares the lowered suffix with \<open>.csv\<close>, and no character outside ASCII lowers to
  one of \<open>c\<close>, \<open>s\<close>, \<open>v\<close>, so the comparison comes out as in Python.
\<close>

definition char_lower :: "char \<Rightarrow> char" where
  "char_lower c =
     (let n = (of_char c :: nat)
      in if 65 \<le> n \<and> n \<le> 90 then char_of (n + 32) else c)"

definition lower :: "string \<Rightarrow> string" where
  "lower s = map char_lower s"

text \<open>
  \<open>dir / s\<close> (\<open>joinpath\<close>): the string is parsed; an absolute right operand replaces the
  left one, a relative one extends its tail.
\<close>

definition joinpath :: "path \<Rightarrow> string \<Rightarrow> path" where
  "joinpath d s =
     (let q = Path s
      in if root q \<noteq> [] then q else PosixPath (root d) (tail d @ tail q))"

definition parent :: "path \<Rightarrow> path" where
  "parent p = PosixPath (root p) (butlast (tail p))"

section \<open>Exceptions, the local filesystem and the remote store\<close>

text \<open>
  The exceptions that the modelled calls raise. \<open>ClientError\<close> carries
  \<open>e.response['Error']['Code']\<close> when the response has one. \<open>OtherException\<close> stands
  for every exception class that no handler of the source names (connection errors of
  botocore, parser errors of pandas, ...); all of them derive from \<open>Exception\<close>.
\<close>

datatype exn =
    FileNotFoundError
  | IsADirectoryError
  | NotADirectoryError
  | FileExistsError
  | ValueError
  | KeyError
  | ShutilError
  | OSError
  | ClientError "string option"
  | OtherException string

datatype node = File string | Dir

text \<open>
  What the environment decides about one remote call (the whole \<open>async with\<close> block:
  opening the connection and the request): it returns, or it raises.
\<close>

datatype outcome = Returns | Raises exn

text \<open>
  The messages of the source, one constructor per format string, with the values the
  format string interpolates. 6_3.py sends them to the log file with a level, 6_1.py
  prints them.
\<close>

datatype msg =
    UploadDone string              \<comment> \<open>"[+] file {remote_name} uploaded successfully"\<close>
  | UploadError exn                \<comment> \<open>"[-] error while uploading the file: {e}"\<close>
  | PlainError exn                 \<comment> \<open>"[-] error: {e}"\<close>
  | ExistsError exn                \<comment> \<open>"[-] error while checking for the file: {e}"\<close>
  | NewFile path                   \<comment> \<open>"[+] new file: {file_path}"\<close>
  | FileRead path                  \<comment> \<open>"[+] file {file_path} read"\<close>
  | FileFiltered path              \<comment> \<open>"[+] file {file_path} filtered"\<close>
  | FileStaged path path           \<comment> \<open>"[+] file {file_path} saved to temporary file {temp_file_path}"\<close>
  | FileUploaded path string       \<comment> \<open>"[+] file {temp_file_path} uploaded to S3 as {remote_name}"\<close>
  | FileArchived path path         \<comment> \<open>"[+] original file {file_path} moved to archive {archive_path}"\<close>
  | TempDeleted path               \<comment> \<open>"[+] temporary file {temp_file_path} deleted"\<close>
  | ProcessingError path exn       \<comment> \<open>"[-] error while processing file {file_path}: {e}"\<close>

datatype level = INFO | ERROR

text \<open>
  The world a call runs in: the local files, the objects of the remote store keyed by
  bucket and key, the log file and the standard output.
\<close>

record world =
  files :: "path \<rightharpoonup> node"
  objects :: "string \<times> string \<rightharpoonup> string"
  log :: "(level \<times> msg) list"
  stdout :: "msg list"

definition logging_info :: "msg \<Rightarrow> world \<Rightarrow> world" where
  "logging_info m w = w\<lparr>log := log w @ [(INFO, m)]\<rparr>"

definition logging_error :: "msg \<Rightarrow> world \<Rightarrow> world" where
  "logging_error m w = w\<lparr>log := log w @ [(ERROR, m)]\<rparr>"

definition print :: "msg \<Rightarrow> world \<Rightarrow> world" where
  "print m w = w\<lparr>stdout := stdout w @ [m]\<rparr>"

text \<open>
  The map of the local files is a tree: the ancestors of an entry are directories.
  \<open>lineage p\<close> lists the root, the ancestors of \<open>p\<close> and \<open>p\<close> itself. The error for a
  path that is not there: \<open>NotADirectoryError\<close> when a regular file stands on the way to
  it, \<open>FileNotFoundError\<close> otherwise.
\<close>

definition lineage :: "path \<Rightarrow> path list" where
  "lineage p = map (\<lambda>n. PosixPath (root p) (take n (tail p))) [0 ..< Suc (length (tail p))]"

definition missing :: "(path \<rightharpoonup> node) \<Rightarrow> path \<Rightarrow> exn" where
  "missing fs p =
     (if list_ex (\<lambda>a. case fs a of Some (File c) \<Rightarrow> True | _ \<Rightarrow> False) (lineage (parent p))
      then NotADirectoryError
      else FileNotFoundError)"

text \<open>\<open>Path.is_file\<close>: the path names an existing regular file.\<close>

definition is_file :: "world \<Rightarrow> path \<Rightarrow> bool" where
  "is_file w p = (case files w p of Some (File c) \<Rightarrow> True | _ \<Rightarrow> False)"

definition isdir :: "world \<Rightarrow> path \<Rightarrow> bool" where
  "isdir w p = (files w p = Some Dir)"

text \<open>
  Reading a file: a missing path and a directory raise. Writing a file (\<open>open(p, "w")\<close>
  and the writes): the parent must be an existing directory, the path itself must not be
  one; an existing file is replaced.
\<close>

definition read_file :: "path \<Rightarrow> world \<Rightarrow> exn + string" where
  "read_file p w =
     (case files w p of
        None \<Rightarrow> Inl (missing (files w) p)
      | Some Dir \<Rightarrow> Inl IsADirectoryError
      | Some (File c) \<Rightarrow> Inr c)"

definition write_file :: "path \<Rightarrow> string \<Rightarrow> world \<Rightarrow> exn + world" where
  "write_file p c w =
     (case files w (parent p) of
        None \<Rightarrow> Inl (missing (files w) (parent p))
      | Some (File x) \<Rightarrow> Inl NotADirectoryError
      | Some Dir \<Rightarrow>
          (if isdir w p then Inl IsADirectoryError
           else Inr (w\<lparr>files := (files w)(p \<mapsto> File c)\<rparr>)))"

text \<open>\<open>Path.unlink\<close> (\<open>missing_ok\<close> is not given): a missing path raises.\<close>

definition unlink :: "path \<Rightarrow> world \<Rightarrow> exn + world" where
  "unlink p w =
     (case files w p of
        None \<Rightarrow> Inl (missing (files w) p)
      | Some Dir \<Rightarrow> Inl IsADirectoryError
      | Some (File c) \<Rightarrow> Inr (w\<lparr>files := (files w)(p := None)\<rparr>))"

text \<open>
  \<open>os.rename\<close> of an entry with everything under it. \<open>is_under d p\<close>: \<open>p\<close> is \<open>d\<close> or
  lies below it.
\<close>

definition is_under :: "path \<Rightarrow> path \<Rightarrow> bool" where
  "is_under d p = (root p = root d \<and> take (length (tail d)) (tail p) = tail d)"

definition rename_tree :: "path \<Rightarrow> path \<Rightarrow> (path \<rightharpoonup> node) \<Rightarrow> (path \<rightharpoonup> node)" where
  "rename_tree src dst fs =
     (\<lambda>p. if is_under dst p
          then fs (PosixPath (root src) (tail src @ drop (length (tail dst)) (tail p)))
          else if is_under src p then None
          else fs p)"

text \<open>
  \<open>os.makedirs\<close>: the path and the ancestors it lacks become directories; a regular
  file on the way raises.
\<close>

definition makedirs :: "path \<Rightarrow> (path \<rightharpoonup> node) \<Rightarrow> exn + (path \<rightharpoonup> node)" where
  "makedirs p fs =
     (if list_ex (\<lambda>a. case fs a of Some (File c) \<Rightarrow> True | _ \<Rightarrow> False) (lineage p)
      then Inl NotADirectoryError
      else Inr (\<lambda>q. if q \<in> set (lineage p) \<and> fs q = None then Some Dir else fs q))"

text \<open>
  \<open>shutil.move(src, dst)\<close> on POSIX. When \<open>dst\<close> is an existing directory the entry goes
  inside it under its own name, and that name must be free there. Otherwise the entry is
  renamed to \<open>dst\<close>: \<open>os.rename\<close> replaces an existing regular file at \<open>dst\<close> without
  a word (on Windows \<open>os.rename\<close> refuses, and \<open>shutil.move\<close> then copies over the
  file and removes the source: the file is replaced there as well). For a regular file, a
  missing source and a missing parent of the destination raise. A directory is renamed,
  or copied as a tree (which makes the missing ancestors of the destination) and removed;
  it cannot go below itself nor onto an existing file.
\<close>

definition shutil_move :: "path \<Rightarrow> path \<Rightarrow> world \<Rightarrow> exn + world" where
  "shutil_move src dst w =
     (if isdir w dst \<and> src = dst then Inr w
      else
        let real_dst = (if isdir w dst then joinpath dst (name src) else dst)
        in if isdir w dst \<and> files w real_dst \<noteq> None then Inl ShutilError
           else
             (case files w src of
                None \<Rightarrow> Inl (missing (files w) src)
              | Some (File c) \<Rightarrow>
                  (case files w (parent real_dst) of
                     None \<Rightarrow> Inl (missing (files w) (parent real_dst))
                   | Some (File x) \<Rightarrow> Inl NotADirectoryError
                   | Some Dir \<Rightarrow>
                       Inr (w\<lparr>files := ((files w)(src := None))(real_dst \<mapsto> File c)\<rparr>))
              | Some Dir \<Rightarrow>
                  (if is_under src real_dst then Inl ShutilError
                   else if files w real_dst \<noteq> None then Inl FileExistsError
                   else
                     (case makedirs (parent real_dst) (files w) of
                        Inl e \<Rightarrow> Inl e
                      | Inr fs \<Rightarrow> Inr (w\<lparr>files := rename_tree src real_dst fs\<rparr>)))))"

section \<open>Data frames (pandas)\<close>

text \<open>
  A data frame is its column names and its rows, each row with its index label. A cell
  is \<open>None\<close> when the value is missing (NaN), and otherwise a value of the type its
  column has: an integer, a float (here always one with an integral value) or text.
  Parsing CSV text into a frame and writing a frame as CSV text are pandas' business:
  they are parameters of the model. \<open>DataFrame.dropna()\<close> with its default arguments
  (\<open>axis=0\<close>, \<open>how='any'\<close>) keeps the rows in which no cell is missing, with their labels
  and in their order.
\<close>

datatype scalar = IntV nat | FloatV nat | StrV string

type_synonym cell = "scalar option"

record dataframe =
  columns :: "string list"
  rows :: "(nat \<times> cell list) list"

record pandas =
  parse_csv :: "string \<Rightarrow> exn + dataframe"
  render_csv :: "dataframe \<Rightarrow> string"

definition has_missing :: "cell list \<Rightarrow> bool" where
  "has_missing r = (None \<in> set r)"

definition dropna :: "dataframe \<Rightarrow> dataframe" where
  "dropna df = df\<lparr>rows := filter (\<lambda>(i, r). \<not> has_missing r) (rows df)\<rparr>"

text \<open>
  \<open>pd.read_csv(path)\<close> and \<open>df.to_csv(path, index=False)\<close>. Before it opens the
  file, \<open>to_csv\<close> raises \<open>OSError\<close> when the parent of the path is not a directory.
\<close>

definition read_csv :: "pandas \<Rightarrow> path \<Rightarrow> world \<Rightarrow> exn + dataframe" where
  "read_csv pd p w =
     (case read_file p w of
        Inl e \<Rightarrow> Inl e
      | Inr c \<Rightarrow> parse_csv pd c)"

definition to_csv :: "pandas \<Rightarrow> dataframe \<Rightarrow> path \<Rightarrow> world \<Rightarrow> exn + world" where
  "to_csv pd df p w =
     (if \<not> isdir w (parent p) then Inl OSError
      else write_file p (render_csv pd df) w)"

section \<open>AsyncObjectStorage\<close>

record storage =
  aws_access_key_id :: string
  aws_secret_access_key :: string
  endpoint_url :: string
  region_name :: string
  bucket :: string
  ca_bundle :: "string option"

text \<open>
  \<open>str.strip\<close> removes the characters Python counts as whitespace from both ends:
  U+0009 to U+000D, U+001C to U+0020, U+0085, U+00A0, U+1680, U+2000 to U+200A, U+2028,
  U+2029, U+202F, U+205F and U+3000, here in their UTF-8 bytes. \<open>space2 c d\<close> and
  \<open>space3 c d e\<close>: the bytes, in reading order, are one of the two-byte and three-byte
  ones.
\<close>

definition isspace :: "char \<Rightarrow> bool" where
  "isspace c =
     (let n = (of_char c :: nat)
      in (9 \<le> n \<and> n \<le> 13) \<or> (28 \<le> n \<and> n \<le> 32))"

definition space2 :: "char \<Rightarrow> char \<Rightarrow> bool" where
  "space2 c d = (c = CHR 0xC2 \<and> (d = CHR 0x85 \<or> d = CHR 0xA0))"

definition space3 :: "char \<Rightarrow> char \<Rightarrow> char \<Rightarrow> bool" where
  "space3 c d e =
     ((c = CHR 0xE1 \<and> d = CHR 0x9A \<and> e = CHR 0x80)
      \<or> (c = CHR 0xE2 \<and> d = CHR 0x80
          \<and> ((128 \<le> (of_char e :: nat) \<and> (of_char e :: nat) \<le> 138)
              \<or> e = CHR 0xA8 \<or> e = CHR 0xA9 \<or> e = CHR 0xAF))
      \<or> (c = CHR 0xE2 \<and> d = CHR 0x81 \<and> e = CHR 0x9F)
      \<or> (c = CHR 0xE3 \<and> d = CHR 0x80 \<and> e = CHR 0x80))"

text \<open>
  \<open>lstrip\<close> reads the bytes from the left; \<open>rstrip_rev\<close> reads the reversed string,
  where the bytes of a character come last byte first.
\<close>

fun lstrip :: "string \<Rightarrow> string" where
  "lstrip (c # d # e # s) =
     (if isspace c then lstrip (d # e # s)
      else if space2 c d then lstrip (e # s)
      else if space3 c d e then lstrip s
      else c # d # e # s)"
| "lstrip (c # d # []) =
     (if isspace c then lstrip (d # [])
      else if space2 c d then []
      else c # d # [])"
| "lstrip (c # []) = (if isspace c then [] else c # [])"
| "lstrip [] = []"

fun rstrip_rev :: "string \<Rightarrow> string" where
  "rstrip_rev (e # d # c # s) =
     (if isspace e then rstrip_rev (d # c # s)
      else if space2 d e then rstrip_rev (c # s)
      else if space3 c d e then rstrip_rev s
      else e # d # c # s)"
| "rstrip_rev (e # d # []) =
     (if isspace e then rstrip_rev (d # [])
      else if space2 d e then []
      else e # d # [])"
| "rstrip_rev (e # []) = (if isspace e then [] else e # [])"
| "rstrip_rev [] = []"

definition strip :: "string \<Rightarrow> string" where
  "strip s = rev (rstrip_rev (rev (lstrip s)))"

text \<open>
  \<open>os.path.isfile\<close> follows the string one component at a time from the root (or from
  the working directory, the path with no root and no component): every component but
  the last must lead through a directory, also an empty one (a doubled or trailing
  slash) and \<open>.\<close>, and \<open>..\<close> goes one directory up. It is true when the walk ends
  on a regular file. There are no symbolic links in the model.
\<close>

definition go_up :: "path \<Rightarrow> path" where
  "go_up p =
     (if tail p = [] then (if root p = [] then PosixPath [] (''..'' # []) else p)
      else if last (tail p) = ''..'' then PosixPath (root p) (tail p @ ''..'' # [])
      else parent p)"

fun walk :: "(path \<rightharpoonup> node) \<Rightarrow> path \<Rightarrow> string list \<Rightarrow> node option" where
  "walk fs cur [] = fs cur"
| "walk fs cur (c # cs) =
     (if fs cur \<noteq> Some Dir then None
      else walk fs
             (if c = [] \<or> c = ''.'' then cur
              else if c = ''..'' then go_up cur
              else PosixPath (root cur) (tail cur @ c # []))
             cs)"

definition os_stat :: "(path \<rightharpoonup> node) \<Rightarrow> string \<Rightarrow> node option" where
  "os_stat fs s =
     (if s = [] then None
      else walk fs (PosixPath (if take 1 s = ''/'' then ''/'' else []) [])
             (split_on CHR ''/'' s))"

definition os_path_isfile :: "(path \<rightharpoonup> node) \<Rightarrow> string \<Rightarrow> bool" where
  "os_path_isfile fs s = (case os_stat fs s of Some (File c) \<Rightarrow> True | _ \<Rightarrow> False)"

text \<open>
  \<open>AsyncObjectStorage.__init__\<close> (the same text in 6_1.py and in 6_3.py). The test
  \<open>self._ca_bundle and not os.path.isfile(self._ca_bundle)\<close> takes \<open>None\<close> and the
  empty string as false. The session object of \<open>get_session()\<close> holds nothing the
  model reads and is left out. The constructor reads the local files through
  \<open>os.path.isfile\<close> and touches nothing else: the world is not among its results, and
  the remote store is not among its arguments.
\<close>

definition AsyncObjectStorage_init ::
    "(path \<rightharpoonup> node) \<Rightarrow> string \<Rightarrow> string \<Rightarrow> string \<Rightarrow> string \<Rightarrow> string option
       \<Rightarrow> exn + storage" where
  "AsyncObjectStorage_init fs key_id secret endpoint container ca =
     (let self = \<lparr>aws_access_key_id = key_id, aws_secret_access_key = secret,
                  endpoint_url = strip endpoint, region_name = ''ru-7'',
                  bucket = container, ca_bundle = ca\<rparr>
      in if (case ca_bundle self of
                None \<Rightarrow> False
              | Some s \<Rightarrow> s \<noteq> [] \<and> \<not> os_path_isfile fs s)
         then Inl FileNotFoundError
         else Inr self)"

text \<open>
  \<open>send_file\<close> of 6_3.py. The first component of the result is what the caller sees:
  \<open>Inr ()\<close> is a normal return (of \<open>None\<close>), \<open>Inl e\<close> an exception that leaves the
  function. \<open>put\<close> is what the environment decides about the connection and the
  request. A \<open>put_object\<close> that returns has stored the file's bytes under the key; one
  that raises has stored nothing. The two \<open>except\<close> clauses are \<open>send_file_except\<close>.
\<close>

definition put_object :: "string \<Rightarrow> string \<Rightarrow> string \<Rightarrow> world \<Rightarrow> world" where
  "put_object b k body w = w\<lparr>objects := (objects w)((b, k) \<mapsto> body)\<rparr>"

fun send_file_except :: "exn \<Rightarrow> world \<Rightarrow> (exn + unit) \<times> world" where
  "send_file_except (ClientError c) w = (Inr (), logging_error (UploadError (ClientError c)) w)"
| "send_file_except FileNotFoundError w =
     (Inr (), logging_error (PlainError FileNotFoundError) w)"
| "send_file_except e w = (Inl e, w)"

definition send_file ::
    "storage \<Rightarrow> path \<Rightarrow> string \<Rightarrow> outcome \<Rightarrow> world \<Rightarrow> (exn + unit) \<times> world" where
  "send_file self local_source remote_name put w =
     (if \<not> is_file w local_source then (Inl ValueError, w)
      else
        (case put of
           Raises e \<Rightarrow> send_file_except e w
         | Returns \<Rightarrow>
             (case read_file local_source w of
                Inl e \<Rightarrow> send_file_except e w
              | Inr body \<Rightarrow>
                  (Inr (), logging_info (UploadDone remote_name)
                             (put_object (bucket self) remote_name body w)))))"

text \<open>
  \<open>send_file\<close> of 6_1.py: the key is the file's own name, the messages are printed.
\<close>

fun send_file_except_6_1 :: "exn \<Rightarrow> world \<Rightarrow> (exn + unit) \<times> world" where
  "send_file_except_6_1 (ClientError c) w = (Inr (), print (UploadError (ClientError c)) w)"
| "send_file_except_6_1 FileNotFoundError w = (Inr (), print (PlainError FileNotFoundError) w)"
| "send_file_except_6_1 e w = (Inl e, w)"

definition send_file_6_1 ::
    "storage \<Rightarrow> path \<Rightarrow> outcome \<Rightarrow> world \<Rightarrow> (exn + unit) \<times> world" where
  "send_file_6_1 self local_source put w =
     (if \<not> is_file w local_source then (Inl ValueError, w)
      else
        (let target_name = name local_source
         in case put of
           Raises e \<Rightarrow> send_file_except_6_1 e w
         | Returns \<Rightarrow>
             (case read_file local_source w of
                Inl e \<Rightarrow> send_file_except_6_1 e w
              | Inr body \<Rightarrow>
                  (Inr (), print (UploadDone target_name)
                             (put_object (bucket self) target_name body w)))))"

text \<open>
  \<open>file_exists\<close> of 6_1.py. A \<open>head_object\<close> that returns gives \<open>True\<close>. A
  \<open>ClientError\<close> gives \<open>False\<close>, silently for the code \<open>404\<close> and after a printed
  message for every other code; reading the code of a response that has none raises
  \<open>KeyError\<close>. Any other exception leaves the function.
\<close>

definition file_exists ::
    "storage \<Rightarrow> string \<Rightarrow> outcome \<Rightarrow> world \<Rightarrow> (exn + bool) \<times> world" where
  "file_exists self remote_name head w =
     (case head of
        Returns \<Rightarrow> (Inr True, w)
      | Raises (ClientError None) \<Rightarrow> (Inl KeyError, w)
      | Raises (ClientError (Some code)) \<Rightarrow>
          (if code = ''404'' then (Inr False, w)
           else (Inr False, print (ExistsError (ClientError (Some code))) w))
      | Raises e \<Rightarrow> (Inl e, w))"

section \<open>CSVHandler\<close>

record handler =
  storage_of :: storage
  source_dir :: path
  archive_dir :: path
  temp_dir :: path

text \<open>
  The event loop as the watcher thread sees it: the coroutines submitted to it and not yet
  finished, in the order of submission. \<open>asyncio.run_coroutine_threadsafe\<close> adds one.
\<close>

datatype coroutine = ProcessCsv path

type_synonym event_loop = "coroutine list"

definition run_coroutine_threadsafe :: "coroutine \<Rightarrow> event_loop \<Rightarrow> event_loop" where
  "run_coroutine_threadsafe t loop = loop @ [t]"

record event =
  is_directory :: bool
  src_path :: string

definition on_created :: "handler \<Rightarrow> event \<Rightarrow> event_loop \<Rightarrow> event_loop" where
  "on_created self ev loop =
     (if is_directory ev then loop
      else
        let file_path = Path (src_path ev)
        in if lower (suffix file_path) = ''.csv''
           then run_coroutine_threadsafe (ProcessCsv file_path) loop
           else loop)"

text \<open>
  \<open>process_csv\<close>, one run of the pipeline. \<open>put\<close> is what the environment decides about
  the upload. The coroutine always returns: \<open>except Exception\<close> turns every exception of
  the body into one error record. The result is the world the run leaves.
\<close>

definition process_csv :: "pandas \<Rightarrow> handler \<Rightarrow> path \<Rightarrow> outcome \<Rightarrow> world \<Rightarrow> world" where
  "process_csv pd self file_path put w0 =
     (let w1 = logging_info (NewFile file_path) w0
      in (case read_csv pd file_path w1 of
        Inl e \<Rightarrow> logging_error (ProcessingError file_path e) w1
      | Inr df \<Rightarrow>
         (let w2 = logging_info (FileRead file_path) w1;
              df_filtered = dropna df;
              w3 = logging_info (FileFiltered file_path) w2;
              temp_file_path = joinpath (temp_dir self) (name file_path)
          in (case to_csv pd df_filtered temp_file_path w3 of
            Inl e \<Rightarrow> logging_error (ProcessingError file_path e) w3
          | Inr w4 \<Rightarrow>
             (let w5 = logging_info (FileStaged file_path temp_file_path) w4;
                  remote_name = ''processed/'' @ name file_path
              in (case send_file (storage_of self) temp_file_path remote_name put w5 of
                (Inl e, w6) \<Rightarrow> logging_error (ProcessingError file_path e) w6
              | (Inr u, w6) \<Rightarrow>
                 (let w7 = logging_info (FileUploaded temp_file_path remote_name) w6;
                      archive_path = joinpath (archive_dir self) (name file_path)
                  in (case shutil_move file_path archive_path w7 of
                    Inl e \<Rightarrow> logging_error (ProcessingError file_path e) w7
                  | Inr w8 \<Rightarrow>
                     (let w9 = logging_info (FileArchived file_path archive_path) w8
                      in (case unlink temp_file_path w9 of
                        Inl e \<Rightarrow> logging_error (ProcessingError file_path e) w9
                      | Inr w10 \<Rightarrow>
                          logging_info (TempDeleted temp_file_path) w10))))))))))"

section \<open>Concrete inputs\<close>

text \<open>
  How pandas reads and writes CSV text, for text without quoting whose lines end with a
  line feed, used in the concrete runs below. The general theorems hold for every
  \<open>pandas\<close> parameter.
  \<^item> Empty lines are skipped; the first line gives the column names; text without a line
    is an error, and so is a row with more cells than the header. A row with fewer cells
    is filled with missing values.
  \<^item> A cell is missing when it is empty or one of the spellings of \<open>na_values\<close> (the
    default list of pandas 2).
  \<^item> A column whose cells, the missing ones apart, are all decimal integers (digits
    only, 15 at most) is a column of integers, and a column of floats when one of its
    cells is missing. Every other column keeps its cells as text. Numbers in another
    notation (a sign, a decimal point, an exponent, surrounding blanks) and truth values
    stay text here.
  \<^item> \<open>to_csv\<close> with \<open>index=False\<close> writes the column names and the cells, a line per
    row: an integer in decimal digits, a float with an integral value as those digits and
    \<open>.0\<close>, text as it is, a missing value as the empty cell.
\<close>

definition csv_lines :: "string \<Rightarrow> string list" where
  "csv_lines s = filter (\<lambda>l. l \<noteq> []) (split_on (CHR 0x0A) s)"

definition na_values :: "string list" where
  "na_values =
     [] # [''#N/A'', ''#N/A N/A'', ''#NA'', ''-1.#IND'', ''-1.#QNAN'', ''-NaN'', ''-nan'',
      ''1.#IND'', ''1.#QNAN'', ''<NA>'', ''N/A'', ''NA'', ''NULL'', ''NaN'', ''None'',
      ''n/a'', ''nan'', ''null'']"

definition is_na :: "string \<Rightarrow> bool" where
  "is_na c = (c \<in> set na_values)"

definition is_int_literal :: "string \<Rightarrow> bool" where
  "is_int_literal c =
     (c \<noteq> [] \<and> length c \<le> 15
      \<and> list_all (\<lambda>d. 48 \<le> (of_char d :: nat) \<and> (of_char d :: nat) \<le> 57) c)"

definition nat_of_digits :: "string \<Rightarrow> nat" where
  "nat_of_digits c = foldl (\<lambda>a d. 10 * a + ((of_char d :: nat) - 48)) 0 c"

function digits_of_nat :: "nat \<Rightarrow> string" where
  "digits_of_nat n =
     (if n < 10 then char_of (48 + n) # []
      else digits_of_nat (n div 10) @ char_of (48 + n mod 10) # [])"
  by pat_completeness auto
termination
  by (relation "measure id") auto

definition typed_column :: "string list \<Rightarrow> cell list" where
  "typed_column cs =
     (let present = filter (\<lambda>c. \<not> is_na c) cs
      in if present \<noteq> [] \<and> list_all is_int_literal present
         then (if length present = length cs
               then map (\<lambda>c. Some (IntV (nat_of_digits c))) cs
               else map (\<lambda>c. if is_na c then None else Some (FloatV (nat_of_digits c))) cs)
         else map (\<lambda>c. if is_na c then None else Some (StrV c)) cs)"

definition pandas_parse_csv :: "string \<Rightarrow> exn + dataframe" where
  "pandas_parse_csv s =
     (case csv_lines s of
        [] \<Rightarrow> Inl (OtherException ''EmptyDataError'')
      | h # ls \<Rightarrow>
          (let cols = split_on CHR '','' h;
               rs = map (split_on CHR '','') ls
           in if list_ex (\<lambda>r. length cols < length r) rs
              then Inl (OtherException ''ParserError'')
              else Inr \<lparr>columns = cols,
                        rows = zip [0 ..< length rs]
                          (transpose (map typed_column (transpose
                             (map (\<lambda>r. r @ replicate (length cols - length r) []) rs))))\<rparr>))"

fun join_with :: "char \<Rightarrow> string list \<Rightarrow> string" where
  "join_with sep [] = []"
| "join_with sep [x] = x"
| "join_with sep (x # y # ys) = x @ sep # join_with sep (y # ys)"

fun render_cell :: "cell \<Rightarrow> string" where
  "render_cell None = []"
| "render_cell (Some (IntV n)) = digits_of_nat n"
| "render_cell (Some (FloatV n)) = digits_of_nat n @ ''.0''"
| "render_cell (Some (StrV t)) = t"

definition pandas_render_csv :: "dataframe \<Rightarrow> string" where
  "pandas_render_csv df =
     concat (map (\<lambda>l. l @ CHR 0x0A # [])
       (join_with CHR '','' (columns df)
        # map (\<lambda>(i, r). join_with CHR '','' (map render_cell r)) (rows df)))"

definition pandas_model :: pandas where
  "pandas_model = \<lparr>parse_csv = pandas_parse_csv, render_csv = pandas_render_csv\<rparr>"

definition demo_storage :: storage where
  "demo_storage =
     \<lparr>aws_access_key_id = ''key'', aws_secret_access_key = ''secret'',
      endpoint_url = ''https://s3.ru-7.storage.selcloud.ru'', region_name = ''ru-7'',
      bucket = ''dataengineer-practice'', ca_bundle = None\<rparr>"

definition demo_handler :: handler where
  "demo_handler =
     \<lparr>storage_of = demo_storage,
      source_dir = PosixPath ''/'' [''data'', ''source''],
      archive_dir = PosixPath ''/'' [''data'', ''archive''],
      temp_dir = PosixPath ''/'' [''data'', ''temp'']\<rparr>"

definition a_csv :: string where
  "a_csv = ''id,val'' @ [CHR 0x0A] @ ''1,5'' @ [CHR 0x0A] @ ''2,'' @ [CHR 0x0A]
             @ ''3,9'' @ [CHR 0x0A]"

definition a_csv_filtered :: string where
  "a_csv_filtered = ''id,val'' @ [CHR 0x0A] @ ''1,5.0'' @ [CHR 0x0A] @ ''3,9.0''
                      @ [CHR 0x0A]"

text \<open>
  The three directories exist and the source directory holds \<open>a.csv\<close>; in the second
  world the archive already holds a file of that name.
\<close>

definition demo_files :: "(path \<times> node) list" where
  "demo_files =
     [(PosixPath ''/'' [], Dir),
      (PosixPath ''/'' [''data''], Dir),
      (PosixPath ''/'' [''data'', ''source''], Dir),
      (PosixPath ''/'' [''data'', ''archive''], Dir),
      (PosixPath ''/'' [''data'', ''temp''], Dir),
      (PosixPath ''/'' [''data'', ''source'', ''a.csv''], File a_csv)]"

definition demo_world :: world where
  "demo_world = \<lparr>files = map_of demo_files, objects = Map.empty, log = [], stdout = []\<rparr>"


definition demo_frame :: dataframe where
  "demo_frame =
     \<lparr>columns = [''id'', ''val''],
      rows = [(0, [Some (IntV 1), Some (FloatV 5)]), (1, [Some (IntV 2), None]),
              (2, [Some (IntV 3), Some (FloatV 9)])]\<rparr>"





section \<open>Basic facts\<close>

lemma logging_info_fields [simp]:
  "files (logging_info m w) = files w"
  "objects (logging_info m w) = objects w"
  "stdout (logging_info m w) = stdout w"
  "log (logging_info m w) = log w @ [(INFO, m)]"
  by (simp_all add: logging_info_def)

lemma logging_error_fields [simp]:
  "files (logging_error m w) = files w"
  "objects (logging_error m w) = objects w"
  "stdout (logging_error m w) = stdout w"
  "log (logging_error m w) = log w @ [(ERROR, m)]"
  by (simp_all add: logging_error_def)

lemma print_fields [simp]:
  "files (print m w) = files w"
  "objects (print m w) = objects w"
  "stdout (print m w) = stdout w @ [m]"
  "log (print m w) = log w"
  by (simp_all add: print_def)

subsection \<open>Components of a parsed path\<close>

lemma split_on_no_sep: "p \<in> set (split_on sep s) \<Longrightarrow> sep \<notin> set p"
  by (induction s arbitrary: p) (auto split: list.splits if_splits)


lemma tail_Path_component:
  assumes "c \<in> set (tail (Path s))"
  shows "c \<noteq> [] \<and> c \<noteq> ''.'' \<and> CHR ''/'' \<notin> set c"
  using assms by (auto simp: Path_def dest: split_on_no_sep)

lemma name_Path_in_tail: "name (Path s) \<noteq> [] \<Longrightarrow> name (Path s) \<in> set (tail (Path s))"
  by (auto simp: name_def split: if_splits)

lemma name_Path_no_slash: "CHR ''/'' \<notin> set (name (Path s))"
proof (cases "name (Path s) = []")
  case True
  then show ?thesis by simp
next
  case False
  then show ?thesis using name_Path_in_tail tail_Path_component by blast
qed





subsection \<open>What each step does to the world\<close>

lemma read_file_files:
  assumes "files w' = files w"
  shows "read_file p w' = read_file p w"
  unfolding read_file_def assms by (rule refl)

lemma read_csv_logging [simp]:
  "read_csv pd p (logging_info m w) = read_csv pd p w"
  by (simp add: read_csv_def read_file_files [of "logging_info m w" w])

lemma write_file_result:
  "write_file p c w = Inr wt \<Longrightarrow>
     files wt = (files w)(p \<mapsto> File c) \<and> objects wt = objects w \<and> log wt = log w
     \<and> stdout wt = stdout w"
  by (auto simp: write_file_def split: option.splits node.splits if_splits)

lemma to_csv_logging:
  "to_csv pd df p (logging_info m w) =
     (case to_csv pd df p w of Inl e \<Rightarrow> Inl e | Inr wt \<Rightarrow> Inr (logging_info m wt))"
  by (simp add: to_csv_def write_file_def isdir_def logging_info_def
           split: option.splits node.splits)

lemma send_file_on_file:
  assumes "files w p = Some (File body)"
  shows "send_file st p k put w =
           (case put of
              Raises e \<Rightarrow> send_file_except e w
            | Returns \<Rightarrow>
                (Inr (), logging_info (UploadDone k) (put_object (bucket st) k body w)))"
  using assms by (simp add: send_file_def is_file_def read_file_def split: outcome.splits)

lemma send_file_except_objects: "objects (snd (send_file_except e w)) = objects w"
  by (cases "(e, w)" rule: send_file_except.cases) simp_all

lemma send_file_objects:
  assumes "send_file st p k put w = (r, w')"
  shows "objects w' = objects w
     \<or> (\<exists>body. files w p = Some (File body) \<and> objects w' = (objects w)((bucket st, k) \<mapsto> body))"
proof (cases "files w p")
  case None
  with assms show ?thesis by (auto simp: send_file_def is_file_def)
next
  case (Some n)
  show ?thesis
  proof (cases n)
    case Dir
    with Some assms show ?thesis by (auto simp: send_file_def is_file_def)
  next
    case (File body)
    with Some have f: "files w p = Some (File body)" by simp
    show ?thesis
    proof (cases put)
      case Returns
      with assms f show ?thesis by (auto simp: send_file_on_file put_object_def)
    next
      case (Raises e)
      with assms f have "w' = snd (send_file_except e w)" by (simp add: send_file_on_file)
      then show ?thesis by (simp add: send_file_except_objects)
    qed
  qed
qed

lemma send_file_Returns_objects:
  assumes "files w p = Some (File body)"
  shows "objects (snd (send_file st p k Returns w)) = (objects w)((bucket st, k) \<mapsto> body)"
  using assms by (simp add: send_file_on_file put_object_def)

lemma shutil_move_objects: "shutil_move a b w = Inr w' \<Longrightarrow> objects w' = objects w"
  by (auto simp: shutil_move_def Let_def
           split: if_splits option.splits node.splits sum.splits)

lemma unlink_objects: "unlink a w = Inr w' \<Longrightarrow> objects w' = objects w"
  by (auto simp: unlink_def split: if_splits option.splits node.splits)

text \<open>
  The remote store after a run is the store after its \<open>send_file\<close> call: no later step
  writes to it.
\<close>

lemma process_csv_objects_after_send:
  assumes rd: "read_csv pd (Path s) w = Inr df"
    and st: "to_csv pd (dropna df) (joinpath (temp_dir h) (name (Path s))) w = Inr wt"
  shows "objects (process_csv pd h (Path s) put w)
           = objects (snd (send_file (storage_of h) (joinpath (temp_dir h) (name (Path s)))
                (''processed/'' @ name (Path s)) put
                (logging_info (FileStaged (Path s) (joinpath (temp_dir h) (name (Path s))))
                  (logging_info (FileFiltered (Path s))
                    (logging_info (FileRead (Path s))
                      (logging_info (NewFile (Path s)) wt))))))"
  using rd st
  by (auto simp: process_csv_def to_csv_logging Let_def
           split: sum.splits prod.splits dest!: shutil_move_objects unlink_objects)

lemma staged_content:
  assumes "to_csv pd df t w = Inr wt"
  shows "files wt t = Some (File (render_csv pd df))" and "objects wt = objects w"
  using write_file_result [of t "render_csv pd df" w wt] assms
  by (simp_all add: to_csv_def split: if_splits)

lemma process_csv_objects_cases:
  "objects (process_csv pd h (Path s) put w) = objects w
   \<or> (\<exists>df. read_csv pd (Path s) w = Inr df
        \<and> objects (process_csv pd h (Path s) put w)
            = (objects w)((bucket (storage_of h), ''processed/'' @ name (Path s))
                            \<mapsto> render_csv pd (dropna df)))"
proof (cases "read_csv pd (Path s) w")
  case (Inl e)
  then show ?thesis by (simp add: process_csv_def)
next
  case rd: (Inr df)
  let ?t = "joinpath (temp_dir h) (name (Path s))"
  show ?thesis
  proof (cases "to_csv pd (dropna df) ?t w")
    case (Inl e)
    with rd show ?thesis by (simp add: process_csv_def to_csv_logging)
  next
    case (Inr wt)
    let ?w5 = "logging_info (FileStaged (Path s) ?t)
                (logging_info (FileFiltered (Path s))
                  (logging_info (FileRead (Path s))
                    (logging_info (NewFile (Path s)) wt)))"
    let ?sf = "send_file (storage_of h) ?t (''processed/'' @ name (Path s)) put ?w5"
    have "?sf = (fst ?sf, snd ?sf)" by simp
    from send_file_objects [OF this] staged_content [OF Inr]
    have "objects (snd ?sf) = objects w
          \<or> objects (snd ?sf)
              = (objects w)((bucket (storage_of h), ''processed/'' @ name (Path s))
                              \<mapsto> render_csv pd (dropna df))"
      by auto
    with process_csv_objects_after_send [OF rd Inr, of put] rd show ?thesis by auto
  qed
qed

lemma process_csv_uploads:
  assumes rd: "read_csv pd (Path s) w = Inr df"
    and st: "to_csv pd (dropna df) (joinpath (temp_dir h) (name (Path s))) w = Inr wt"
  shows "objects (process_csv pd h (Path s) Returns w)
           = (objects w)((bucket (storage_of h), ''processed/'' @ name (Path s))
                           \<mapsto> render_csv pd (dropna df))"
  using process_csv_objects_after_send [OF rd st, of Returns] staged_content [OF st]
  by (simp add: send_file_Returns_objects)

text \<open>
  The sibling path of the upload stage: an exception that \<open>send_file\<close> does not catch
  reaches the handler of \<open>process_csv\<close>, and the run ends there. The staged file and the
  source file are where the staging step left them.
\<close>

lemma process_csv_upload_exception:
  assumes rd: "read_csv pd (Path s) w = Inr df"
    and st: "to_csv pd (dropna df) (joinpath (temp_dir h) (name (Path s))) w = Inr wt"
    and e1: "\<forall>c. e \<noteq> ClientError c" and e2: "e \<noteq> FileNotFoundError"
  shows "files (process_csv pd h (Path s) (Raises e) w) = files wt
         \<and> last (log (process_csv pd h (Path s) (Raises e) w))
             = (ERROR, ProcessingError (Path s) e)"
proof -
  let ?t = "joinpath (temp_dir h) (name (Path s))"
  let ?k = "''processed/'' @ name (Path s)"
  let ?w5 = "logging_info (FileStaged (Path s) ?t)
              (logging_info (FileFiltered (Path s))
                (logging_info (FileRead (Path s))
                  (logging_info (NewFile (Path s)) wt)))"
  have sf: "send_file (storage_of h) ?t ?k (Raises e) ?w5 = (Inl e, ?w5)"
    using staged_content(1) [OF st] e1 e2 by (cases e) (simp_all add: send_file_on_file)
  have "process_csv pd h (Path s) (Raises e) w = logging_error (ProcessingError (Path s) e) ?w5"
    using rd st sf by (simp add: process_csv_def to_csv_logging Let_def)
  then show ?thesis by simp
qed

lemma Path_a_csv:
  "Path ''/data/source/a.csv'' = PosixPath ''/'' [''data'', ''source'', ''a.csv'']"
  by code_simp

section \<open>The claims\<close>

text \<open>
  C1. The claim: when the upload stage fails with a storage error, the staged temporary
  file is left in place and the source file is not moved to the archive. The run below is
  the code on the source file \<open>/data/source/a.csv\<close> with an upload that raises a
  \<open>ClientError\<close>: \<open>send_file\<close> catches the error and returns, so the run goes on. At its
  end the staged file is deleted, the source file is gone from the source directory and
  sits in the archive, and the remote store holds no object.
\<close>

theorem upload_client_error_run_files:
  "files (process_csv pandas_model demo_handler (Path ''/data/source/a.csv'')
            (Raises (ClientError (Some ''InternalError''))) demo_world)
         (PosixPath ''/'' [''data'', ''temp'', ''a.csv'']) = None
   \<and> files (process_csv pandas_model demo_handler (Path ''/data/source/a.csv'')
            (Raises (ClientError (Some ''InternalError''))) demo_world)
         (PosixPath ''/'' [''data'', ''source'', ''a.csv'']) = None
   \<and> files (process_csv pandas_model demo_handler (Path ''/data/source/a.csv'')
            (Raises (ClientError (Some ''InternalError''))) demo_world)
         (PosixPath ''/'' [''data'', ''archive'', ''a.csv'']) = Some (File a_csv)
   \<and> objects (process_csv pandas_model demo_handler (Path ''/data/source/a.csv'')
            (Raises (ClientError (Some ''InternalError''))) demo_world)
         (''dataengineer-practice'', ''processed/a.csv'') = None"
  by code_simp

text \<open>
  C2. The claim: a run moves strictly forward through Detected, Read, Filtered, Staged,
  Uploaded, Archived, Cleaned, and after a failed stage it is Failed and no later stage
  runs. The log of the same run: the upload fails (the error record of \<open>send_file\<close>), and
  the records of the stages Uploaded, Archived and Cleaned follow it; the record of a
  failed run is never written.
\<close>

theorem upload_client_error_run_log:
  "log (process_csv pandas_model demo_handler (Path ''/data/source/a.csv'')
          (Raises (ClientError (Some ''InternalError''))) demo_world)
   = [(INFO, NewFile (PosixPath ''/'' [''data'', ''source'', ''a.csv''])),
      (INFO, FileRead (PosixPath ''/'' [''data'', ''source'', ''a.csv''])),
      (INFO, FileFiltered (PosixPath ''/'' [''data'', ''source'', ''a.csv''])),
      (INFO, FileStaged (PosixPath ''/'' [''data'', ''source'', ''a.csv''])
               (PosixPath ''/'' [''data'', ''temp'', ''a.csv''])),
      (ERROR, UploadError (ClientError (Some ''InternalError''))),
      (INFO, FileUploaded (PosixPath ''/'' [''data'', ''temp'', ''a.csv''])
               ''processed/a.csv''),
      (INFO, FileArchived (PosixPath ''/'' [''data'', ''source'', ''a.csv''])
               (PosixPath ''/'' [''data'', ''archive'', ''a.csv''])),
      (INFO, TempDeleted (PosixPath ''/'' [''data'', ''temp'', ''a.csv'']))]"
  by code_simp

text \<open>
  C3, as the code has it. \<open>file_exists\<close> returns \<open>True\<close> when \<open>head_object\<close> returns and
  \<open>False\<close> for a \<open>ClientError\<close> with any error code: without a message for the code
  \<open>404\<close>, after a printed message for every other code. Only an exception that is not a
  \<open>ClientError\<close> reaches the caller (and \<open>KeyError\<close> for a \<open>ClientError\<close> whose response
  has no code).
\<close>

theorem file_exists_result:
  "fst (file_exists st k Returns w) = Inr True
   \<and> fst (file_exists st k (Raises (ClientError (Some code))) w) = Inr False
   \<and> stdout (snd (file_exists st k (Raises (ClientError (Some code))) w))
       = (if code = ''404'' then stdout w
          else stdout w @ [ExistsError (ClientError (Some code))])
   \<and> fst (file_exists st k (Raises (ClientError None)) w) = Inl KeyError
   \<and> ((\<forall>c. e \<noteq> ClientError c) \<longrightarrow> fst (file_exists st k (Raises e) w) = Inl e)"
  by (cases e) (simp_all add: file_exists_def)

theorem file_exists_result_witness:
  "(\<forall>c. OtherException ''EndpointConnectionError'' \<noteq> ClientError c)
   \<and> fst (file_exists demo_storage ''test.txt''
            (Raises (OtherException ''EndpointConnectionError'')) demo_world)
       = Inl (OtherException ''EndpointConnectionError'')
   \<and> fst (file_exists demo_storage ''test.txt'' (Raises (ClientError (Some ''404'')))
            demo_world) = Inr False"
  using file_exists_result [of demo_storage "''test.txt''" demo_world "''404''"
          "OtherException ''EndpointConnectionError''"]
  by simp

text \<open>
  C3, as the claim states it: \<open>False\<close> exactly for NotFound, an error for every other
  failure. The remote answers 403, which is not NotFound, and \<open>file_exists\<close> returns
  \<open>False\<close>.
\<close>

theorem file_exists_counterexample:
  "''403'' \<noteq> ''404''
   \<and> fst (file_exists demo_storage ''test.txt'' (Raises (ClientError (Some ''403'')))
            demo_world) = Inr False"
  by (simp add: file_exists_def)




text \<open>
  C5. A CA bundle path that is not empty and names no existing file makes the constructor
  raise \<open>FileNotFoundError\<close>; an empty path, a path to an existing file and no path at
  all give the client, with the path and the bucket stored. The constructor has no access
  to the remote store and starts no run: its only look at the world is
  \<open>os.path.isfile\<close>.
\<close>

theorem init_ca_bundle:
  "(s \<noteq> [] \<and> \<not> os_path_isfile fs s \<longrightarrow>
      AsyncObjectStorage_init fs key_id secret endpoint container (Some s)
        = Inl FileNotFoundError)
   \<and> (s = [] \<or> os_path_isfile fs s \<longrightarrow>
      (\<exists>self. AsyncObjectStorage_init fs key_id secret endpoint container (Some s) = Inr self
              \<and> ca_bundle self = Some s \<and> bucket self = container))
   \<and> (\<exists>self. AsyncObjectStorage_init fs key_id secret endpoint container None = Inr self
              \<and> ca_bundle self = None \<and> bucket self = container)"
  by (auto simp: AsyncObjectStorage_init_def)

theorem init_ca_bundle_witness:
  "''/data/root.crt'' \<noteq> [] \<and> \<not> os_path_isfile (files demo_world) ''/data/root.crt''
   \<and> AsyncObjectStorage_init (files demo_world) ''key'' ''secret''
        ''https://s3.ru-7.storage.selcloud.ru '' ''dataengineer-practice''
        (Some ''/data/root.crt'') = Inl FileNotFoundError
   \<and> os_path_isfile (files demo_world) ''/data/source/a.csv''
   \<and> (\<exists>self. AsyncObjectStorage_init (files demo_world) ''key'' ''secret''
        ''https://s3.ru-7.storage.selcloud.ru '' ''dataengineer-practice''
        (Some ''/data/source/a.csv'') = Inr self)"
proof -
  have h1: "''/data/root.crt'' \<noteq> [] \<and> \<not> os_path_isfile (files demo_world) ''/data/root.crt''"
    by code_simp
  have h2: "os_path_isfile (files demo_world) ''/data/source/a.csv''"
    by code_simp
  from h1 h2
    init_ca_bundle [of "''/data/root.crt''" "files demo_world" "''key''" "''secret''"
      "''https://s3.ru-7.storage.selcloud.ru ''" "''dataengineer-practice''"]
    init_ca_bundle [of "''/data/source/a.csv''" "files demo_world" "''key''" "''secret''"
      "''https://s3.ru-7.storage.selcloud.ru ''" "''dataengineer-practice''"]
  show ?thesis by blast
qed

text \<open>
  C6, as the code has it. The handler keeps no registry of the runs in flight and
  \<open>on_created\<close> does not look at the event loop: every creation event for a path that is
  not a directory and has the suffix \<open>.csv\<close> submits one more run, whatever the loop
  already holds, so the number of runs for that path goes up by one also when one is in
  flight.
\<close>

theorem on_created_keeps_no_registry:
  assumes "\<not> is_directory ev" and "lower (suffix (Path (src_path ev))) = ''.csv''"
  shows "on_created h ev loop = loop @ [ProcessCsv (Path (src_path ev))]
         \<and> count_list (on_created h ev loop) (ProcessCsv (Path (src_path ev)))
             = Suc (count_list loop (ProcessCsv (Path (src_path ev))))"
  using assms by (simp add: on_created_def run_coroutine_threadsafe_def)

theorem on_created_keeps_no_registry_witness:
  "\<not> is_directory \<lparr>is_directory = False, src_path = ''/data/source/a.csv''\<rparr>
   \<and> lower (suffix (Path (src_path \<lparr>is_directory = False, src_path = ''/data/source/a.csv''\<rparr>)))
       = ''.csv''
   \<and> count_list
        (on_created demo_handler \<lparr>is_directory = False, src_path = ''/data/source/a.csv''\<rparr>
           [ProcessCsv (Path ''/data/source/a.csv'')])
        (ProcessCsv (Path ''/data/source/a.csv'')) = 2"
proof -
  let ?ev = "\<lparr>is_directory = False, src_path = ''/data/source/a.csv''\<rparr>"
  have h1: "\<not> is_directory ?ev" by simp
  have h2: "lower (suffix (Path (src_path ?ev))) = ''.csv''" by code_simp
  from on_created_keeps_no_registry [OF h1 h2, of demo_handler
         "[ProcessCsv (Path ''/data/source/a.csv'')]"] h1 h2
  show ?thesis by simp
qed

text \<open>
  C6, as the claim states it: a second trigger for a path whose run is in flight is
  dropped. The loop holds the run for \<open>/data/source/a.csv\<close>; a second creation event for
  the same path leaves two runs for it in the loop.
\<close>

theorem on_created_duplicate_counterexample:
  "on_created demo_handler \<lparr>is_directory = False, src_path = ''/data/source/a.csv''\<rparr>
     [ProcessCsv (PosixPath ''/'' [''data'', ''source'', ''a.csv''])]
   = [ProcessCsv (PosixPath ''/'' [''data'', ''source'', ''a.csv'']),
      ProcessCsv (PosixPath ''/'' [''data'', ''source'', ''a.csv''])]"
  by code_simp




text \<open>
  C8. \<open>on_created\<close> leaves the event loop as it is for a directory event and for a path
  whose suffix is not \<open>.csv\<close> when letter case is ignored; for a file whose suffix is,
  it submits exactly one run, for that path.
\<close>

theorem on_created_dispatch:
  "(is_directory ev \<longrightarrow> on_created h ev loop = loop)
   \<and> (\<not> is_directory ev \<and> lower (suffix (Path (src_path ev))) \<noteq> lower ''.csv''
        \<longrightarrow> on_created h ev loop = loop)
   \<and> (\<not> is_directory ev \<and> lower (suffix (Path (src_path ev))) = lower ''.csv''
        \<longrightarrow> on_created h ev loop = loop @ [ProcessCsv (Path (src_path ev))]
            \<and> length (on_created h ev loop) = length loop + 1)"
  by (simp add: on_created_def run_coroutine_threadsafe_def lower_def char_lower_def)

theorem on_created_dispatch_witness:
  "on_created demo_handler \<lparr>is_directory = True, src_path = ''/data/source/sub.csv''\<rparr> []
     = []
   \<and> lower (suffix (Path ''/data/source/notes.txt'')) \<noteq> lower ''.csv''
   \<and> on_created demo_handler \<lparr>is_directory = False, src_path = ''/data/source/notes.txt''\<rparr> []
       = []
   \<and> lower (suffix (Path ''/data/source/A.CSV'')) = lower ''.csv''
   \<and> on_created demo_handler \<lparr>is_directory = False, src_path = ''/data/source/A.CSV''\<rparr> []
       = [ProcessCsv (Path ''/data/source/A.CSV'')]"
proof -
  have h2: "lower (suffix (Path ''/data/source/notes.txt'')) \<noteq> lower ''.csv''"
    by code_simp
  have h3: "lower (suffix (Path ''/data/source/A.CSV'')) = lower ''.csv''"
    by code_simp
  from h2 h3
    on_created_dispatch [of "\<lparr>is_directory = True, src_path = ''/data/source/sub.csv''\<rparr>"
      demo_handler "[]"]
    on_created_dispatch [of "\<lparr>is_directory = False, src_path = ''/data/source/notes.txt''\<rparr>"
      demo_handler "[]"]
    on_created_dispatch [of "\<lparr>is_directory = False, src_path = ''/data/source/A.CSV''\<rparr>"
      demo_handler "[]"]
  show ?thesis by simp
qed

text \<open>
  C9. A run writes to the remote store under one key at most: the bucket of the client
  and \<open>processed/\<close> followed by the name of the source file, and what it writes there is
  the filtered frame as CSV text. The file name has no slash, so the key has no level
  below \<open>processed/\<close>. When the file is read and staged and the upload returns, the
  object is there.
\<close>

theorem process_csv_remote_key:
  "(objects (process_csv pd h (Path s) put w) = objects w
    \<or> (\<exists>df. read_csv pd (Path s) w = Inr df
         \<and> objects (process_csv pd h (Path s) put w)
             = (objects w)((bucket (storage_of h), ''processed/'' @ name (Path s))
                             \<mapsto> render_csv pd (dropna df))))
   \<and> CHR ''/'' \<notin> set (name (Path s))
   \<and> (read_csv pd (Path s) w = Inr df
        \<and> \<not> isl (to_csv pd (dropna df) (joinpath (temp_dir h) (name (Path s))) w)
      \<longrightarrow> objects (process_csv pd h (Path s) Returns w)
             = (objects w)((bucket (storage_of h), ''processed/'' @ name (Path s))
                             \<mapsto> render_csv pd (dropna df)))"
proof -
  have "objects (process_csv pd h (Path s) Returns w)
          = (objects w)((bucket (storage_of h), ''processed/'' @ name (Path s))
                          \<mapsto> render_csv pd (dropna df))"
    if rd: "read_csv pd (Path s) w = Inr df"
      and st: "\<not> isl (to_csv pd (dropna df) (joinpath (temp_dir h) (name (Path s))) w)"
  proof -
    from st obtain wt
      where "to_csv pd (dropna df) (joinpath (temp_dir h) (name (Path s))) w = Inr wt"
      by (cases "to_csv pd (dropna df) (joinpath (temp_dir h) (name (Path s))) w") auto
    with rd show ?thesis by (rule process_csv_uploads)
  qed
  with process_csv_objects_cases [of pd h s put w] name_Path_no_slash [of s]
  show ?thesis by blast
qed

theorem process_csv_remote_key_witness:
  "read_csv pandas_model (Path ''/data/source/a.csv'') demo_world = Inr demo_frame
   \<and> \<not> isl (to_csv pandas_model (dropna demo_frame)
              (joinpath (temp_dir demo_handler) (name (Path ''/data/source/a.csv'')))
              demo_world)
   \<and> objects (process_csv pandas_model demo_handler (Path ''/data/source/a.csv'') Returns
                demo_world) (''dataengineer-practice'', ''processed/a.csv'')
       = Some a_csv_filtered"
proof -
  have h1: "read_csv pandas_model (Path ''/data/source/a.csv'') demo_world = Inr demo_frame"
    by code_simp
  have h2: "\<not> isl (to_csv pandas_model (dropna demo_frame)
              (joinpath (temp_dir demo_handler) (name (Path ''/data/source/a.csv'')))
              demo_world)"
    by code_simp
  have k: "(bucket (storage_of demo_handler), ''processed/'' @ name (Path ''/data/source/a.csv''))
             = (''dataengineer-practice'', ''processed/a.csv'')"
    by code_simp
  have b: "render_csv pandas_model (dropna demo_frame) = a_csv_filtered"
    by code_simp
  from process_csv_remote_key [of pandas_model demo_handler "''/data/source/a.csv''"
         Returns demo_world demo_frame] h1 h2
  have "objects (process_csv pandas_model demo_handler (Path ''/data/source/a.csv'') Returns
                  demo_world)
          = (objects demo_world)
              ((bucket (storage_of demo_handler),
                ''processed/'' @ name (Path ''/data/source/a.csv''))
                 \<mapsto> render_csv pandas_model (dropna demo_frame))"
    by blast
  with h1 h2 show ?thesis by (simp only: k b fun_upd_same simp_thms)
qed

text \<open>
  C10. \<open>send_file\<close> on an existing regular file whose upload raises a \<open>ClientError\<close>
  returns normally: its result is the result of a successful upload, so the caller sees
  no difference. The error goes to the log (to the standard output in 6_1.py) and the
  remote store is unchanged.
\<close>

theorem send_file_client_error_returns:
  assumes "files w p = Some (File body)"
  shows "fst (send_file st p k (Raises (ClientError c)) w) = Inr ()
     \<and> fst (send_file st p k (Raises (ClientError c)) w) = fst (send_file st p k Returns w)
     \<and> log (snd (send_file st p k (Raises (ClientError c)) w))
         = log w @ [(ERROR, UploadError (ClientError c))]
     \<and> objects (snd (send_file st p k (Raises (ClientError c)) w)) = objects w
     \<and> fst (send_file_6_1 st p (Raises (ClientError c)) w) = Inr ()
     \<and> fst (send_file_6_1 st p (Raises (ClientError c)) w)
         = fst (send_file_6_1 st p Returns w)
     \<and> stdout (snd (send_file_6_1 st p (Raises (ClientError c)) w))
         = stdout w @ [UploadError (ClientError c)]
     \<and> objects (snd (send_file_6_1 st p (Raises (ClientError c)) w)) = objects w"
  using assms
  by (simp add: send_file_def send_file_6_1_def Let_def is_file_def read_file_def)

theorem send_file_client_error_returns_witness:
  "files demo_world (PosixPath ''/'' [''data'', ''source'', ''a.csv'']) = Some (File a_csv)
   \<and> fst (send_file demo_storage (PosixPath ''/'' [''data'', ''source'', ''a.csv''])
            ''processed/a.csv'' (Raises (ClientError (Some ''InternalError''))) demo_world)
       = Inr ()
   \<and> fst (send_file demo_storage (PosixPath ''/'' [''data'', ''source'', ''a.csv''])
            ''processed/a.csv'' Returns demo_world) = Inr ()"
proof -
  have h: "files demo_world (PosixPath ''/'' [''data'', ''source'', ''a.csv''])
             = Some (File a_csv)"
    by code_simp
  from send_file_client_error_returns [OF h, of demo_storage "''processed/a.csv''"
         "Some ''InternalError''"] h
  show ?thesis by metis
qed

end
